theory Spec2Isabelle
  imports Complex_Main
begin

section \<open>The virtual camera of meshrender (camera.py)\<close>

text \<open>
  The module defines one class, \<open>VirtualCamera\<close>, with a constructor, two read-only
  properties (\<open>V\<close> and \<open>P\<close>) and one mutating method (\<open>resize\<close>).

  Modelling choices.
  \<^item> Python floats are idealised as the real numbers: every arithmetic operation of the
    source is the same operation on \<open>real\<close>, without rounding. Python integers are
    \<open>int\<close>, and \<open>float(n)\<close> is the embedding of \<open>int\<close> into \<open>real\<close>.
  \<^item> Where two computations are compared, the rounding of doubles decides, and
    \<open>resize_rounded\<close> is the method \<open>resize\<close> with the result of every floating-point
    operation passed through a rounding function; \<open>double_round\<close> is the rounding of
    IEEE 754 binary64 (to nearest, ties to even), and with no rounding \<open>resize_rounded\<close>
    is \<open>resize\<close>.
  \<^item> A Python exception is a value of the type \<open>error\<close>; a computation that may raise
    returns \<open>error + 'a\<close>, with \<open>Inl\<close> for the exception.
  \<^item> The true division \<open>a / b\<close> of Python raises \<open>ZeroDivisionError\<close> when \<open>b\<close> is
    zero; HOL's \<open>a / 0\<close> is \<open>0\<close>, so the test is written out in \<open>py_truediv\<close>.
  \<^item> A two-dimensional numpy array is a list of rows, each a list of reals.
  \<^item> A method that mutates \<open>self\<close> takes the object and returns the outcome together
    with the object after the call.
\<close>

subsection \<open>Exceptions and arithmetic\<close>

datatype error = ValueError | AttributeError | NameError | ZeroDivisionError

definition py_truediv :: "real \<Rightarrow> real \<Rightarrow> error + real" where
  "py_truediv a b = (if b = 0 then Inl ZeroDivisionError else Inr (a / b))"

definition bind_result :: "error + 'a \<Rightarrow> ('a \<Rightarrow> error + 'b) \<Rightarrow> error + 'b" where
  "bind_result r f = (case r of Inl e \<Rightarrow> Inl e | Inr x \<Rightarrow> f x)"

subsection \<open>Matrices\<close>

type_synonym matrix = "real list list"

text \<open>\<open>np.zeros((r, c))\<close>.\<close>

definition zeros :: "nat \<Rightarrow> nat \<Rightarrow> matrix" where
  "zeros r c = replicate r (replicate c 0)"

text \<open>The assignment \<open>M[i][j] = v\<close>; every use below has its indices inside the shape.\<close>

definition set_entry :: "matrix \<Rightarrow> nat \<Rightarrow> nat \<Rightarrow> real \<Rightarrow> matrix" where
  "set_entry M i j v = M[i := (M ! i)[j := v]]"

subsection \<open>The data model\<close>

text \<open>
  Modelled from the spec: the class \<open>CameraIntrinsics\<close> is imported from the package
  \<open>perception\<close>, which is not part of this repository. The spec describes it as a value
  with the floating-point fields \<open>fx, fy, cx, cy, skew\<close>, the integer fields
  \<open>width, height\<close> and a frame label; the field names are those the source reads and
  those of the keyword arguments of line 99. Its constructor stores the arguments. The
  spec calls width and height positive; nothing in camera.py tests their sign, so the
  fields are plain integers here and a theorem that needs them nonzero says so.
\<close>

record CameraIntrinsics =
  frame :: string
  fx :: real
  fy :: real
  cx :: real
  cy :: real
  skew :: real
  height :: int
  width :: int

text \<open>
  The attributes of a \<open>VirtualCamera\<close>. The pose is \<open>None\<close> (the default of the
  constructor) or a matrix.
\<close>

record VirtualCamera =
  intrinsics :: CameraIntrinsics
  pose :: "matrix option"
  z_near :: real
  z_far :: real

subsection \<open>The projection matrix, lines 56 to 69\<close>

definition P :: "VirtualCamera \<Rightarrow> error + matrix" where
  "P self =
     (let P0 = zeros 4 4 in
      bind_result (py_truediv (2.0 * fx (intrinsics self)) (of_int (width (intrinsics self)))) (\<lambda>a.
      let P1 = set_entry P0 0 0 a in
      bind_result (py_truediv (2.0 * fy (intrinsics self)) (of_int (height (intrinsics self)))) (\<lambda>b.
      let P2 = set_entry P1 1 1 b in
      bind_result (py_truediv (2.0 * cx (intrinsics self)) (of_int (width (intrinsics self)))) (\<lambda>c.
      let P3 = set_entry P2 0 2 (1.0 - c) in
      bind_result (py_truediv (2.0 * cy (intrinsics self)) (of_int (height (intrinsics self)))) (\<lambda>d.
      let P4 = set_entry P3 1 2 (d - 1.0) in
      bind_result (py_truediv (- (z_far self + z_near self)) (z_far self - z_near self)) (\<lambda>e.
      let P5 = set_entry P4 2 2 e in
      let P6 = set_entry P5 3 2 (- 1.0) in
      bind_result (py_truediv (- (2.0 * z_far self * z_near self)) (z_far self - z_near self)) (\<lambda>f.
      let P7 = set_entry P6 2 3 f in
      Inr P7)))))))"

subsection \<open>Python objects\<close>

text \<open>
  The argument \<open>intrinsics\<close> of the constructor is any Python object: \<open>None\<close>, an
  instance of \<open>CameraIntrinsics\<close>, or an object of another type (given by the name of
  its type).
\<close>

datatype py_object = PyNone | PyCameraIntrinsics CameraIntrinsics | PyOther string

text \<open>\<open>isinstance(obj, CameraIntrinsics)\<close>.\<close>

fun isinstance_CameraIntrinsics :: "py_object \<Rightarrow> bool" where
  "isinstance_CameraIntrinsics (PyCameraIntrinsics i) = True"
| "isinstance_CameraIntrinsics PyNone = False"
| "isinstance_CameraIntrinsics (PyOther t) = False"

subsection \<open>The constructor, lines 26 to 38\<close>

text \<open>
  The defaults of \<open>pose\<close>, \<open>z_near\<close> and \<open>z_far\<close> (\<open>None\<close> and the constants
  \<open>Z_NEAR\<close>, \<open>Z_FAR\<close> of the module \<open>constants\<close>) are supplied by the caller of the
  model, which takes the four arguments.
\<close>

definition VirtualCamera_init ::
    "py_object \<Rightarrow> matrix option \<Rightarrow> real \<Rightarrow> real \<Rightarrow> error + VirtualCamera" where
  "VirtualCamera_init intrinsics_arg pose_arg z_near_arg z_far_arg =
     (case intrinsics_arg of
        PyCameraIntrinsics i \<Rightarrow>
          Inr \<lparr>intrinsics = i, pose = pose_arg, z_near = z_near_arg, z_far = z_far_arg\<rparr>
      | PyNone \<Rightarrow> Inl ValueError
      | PyOther t \<Rightarrow> Inl ValueError)"

subsection \<open>The view matrix, lines 40 to 54\<close>

text \<open>
  \<open>V_inv[:3,1:3] *= -1\<close>: the entries in rows 0 to 2 and columns 1 to 2 are multiplied
  by \<open>-1\<close>; a slice is clipped to the shape of the array.
\<close>

definition reverse_YZ :: "matrix \<Rightarrow> matrix" where
  "reverse_YZ M =
     map (\<lambda>(i, row). map (\<lambda>(j, x). if i < 3 \<and> 1 \<le> j \<and> j < 3 then x * (- 1) else x)
                          (enumerate 0 row))
         (enumerate 0 M)"

text \<open>
  Reading a name: the scope is searched and \<open>NameError\<close> is raised when the name is not
  bound in it.
\<close>

definition lookup_name :: "(string \<times> matrix) list \<Rightarrow> string \<Rightarrow> error + matrix" where
  "lookup_name scope n = (case map_of scope n of None \<Rightarrow> Inl NameError | Some v \<Rightarrow> Inr v)"

text \<open>
  \<open>np.linalg.inv\<close> belongs to numpy and is a parameter of the model. Line 49 reads the
  attribute \<open>copy\<close> of the pose, which \<open>None\<close> does not have (\<open>AttributeError\<close>).
  Line 53 reads the name \<open>V_inv_GL\<close>. The names bound when it runs are the locals
  \<open>self\<close> and \<open>V_inv\<close>, the module's \<open>np\<close>, \<open>CameraIntrinsics\<close>, \<open>Z_NEAR\<close>, \<open>Z_FAR\<close> and
  \<open>VirtualCamera\<close>, and the builtins; \<open>V_inv\<close> is the only one of them bound to a
  matrix, and the scope below lists the matrix-valued names.
\<close>

definition V :: "(matrix \<Rightarrow> error + matrix) \<Rightarrow> VirtualCamera \<Rightarrow> error + matrix" where
  "V linalg_inv self =
     (case pose self of
        None \<Rightarrow> Inl AttributeError
      | Some p \<Rightarrow>
          (let V_inv = reverse_YZ p in
           bind_result (lookup_name [(''V_inv'', V_inv)] ''V_inv_GL'') linalg_inv))"

subsection \<open>Resizing, lines 72 to 102\<close>

text \<open>
  The method returns nothing and assigns \<open>self.intrinsics\<close> in its last line; an
  exception raised before that leaves the object as it was.
\<close>

definition resize :: "VirtualCamera \<Rightarrow> int \<Rightarrow> int \<Rightarrow> (error + unit) \<times> VirtualCamera" where
  "resize self new_width new_height =
     (case py_truediv (of_int new_width) (of_int (width (intrinsics self))) of
        Inl e \<Rightarrow> (Inl e, self)
      | Inr x_scale \<Rightarrow>
     (case py_truediv (of_int new_height) (of_int (height (intrinsics self))) of
        Inl e \<Rightarrow> (Inl e, self)
      | Inr y_scale \<Rightarrow>
          (let center_x = of_int (width (intrinsics self) - 1) / 2;
               center_y = of_int (height (intrinsics self) - 1) / 2;
               orig_cx_diff = cx (intrinsics self) - center_x;
               orig_cy_diff = cy (intrinsics self) - center_y;
               scaled_center_x = of_int (new_width - 1) / 2;
               scaled_center_y = of_int (new_height - 1) / 2;
               cx' = scaled_center_x + x_scale * orig_cx_diff;
               cy' = scaled_center_y + y_scale * orig_cy_diff;
               fx' = fx (intrinsics self) * x_scale;
               fy' = fy (intrinsics self) * x_scale;
               scaled_intrinsics =
                 \<lparr>frame = frame (intrinsics self), fx = fx', fy = fy', cx = cx', cy = cy',
                  skew = skew (intrinsics self), height = new_height, width = new_width\<rparr>
           in (Inr (), self\<lparr>intrinsics := scaled_intrinsics\<rparr>))))"

subsection \<open>Double arithmetic\<close>

text \<open>
  A finite double is an integer multiple \<open>m * 2^(e - 52)\<close> with \<open>\<bar>m\<bar> < 2^53\<close> and
  \<open>e\<close> at least \<open>-1022\<close>. The result of a floating-point operation is the exact result
  rounded to the nearest double, a tie going to the even multiple. \<open>binary_exponent\<close>
  finds \<open>e\<close> with \<open>2^e \<le> x < 2^(e+1)\<close> by halving or doubling \<open>x\<close>, at most 1100
  times, which covers every positive double. Results of magnitude \<open>2^1024\<close> and more
  (Python's \<open>inf\<close>) lie outside the model.
\<close>

definition round_half_even :: "real \<Rightarrow> int" where
  "round_half_even y =
     (let q = \<lfloor>y\<rfloor>; r = y - of_int q
      in if r < 1 / 2 then q else if 1 / 2 < r then q + 1 else if even q then q else q + 1)"

fun binary_exponent :: "nat \<Rightarrow> real \<Rightarrow> int" where
  "binary_exponent 0 x = 0"
| "binary_exponent (Suc n) x =
     (if 2 \<le> x then binary_exponent n (x / 2) + 1
      else if x < 1 then binary_exponent n (x * 2) - 1
      else 0)"

definition pow2 :: "int \<Rightarrow> real" where
  "pow2 e = (if 0 \<le> e then 2 ^ nat e else 1 / 2 ^ nat (- e))"

definition double_round :: "real \<Rightarrow> real" where
  "double_round x =
     (if x = 0 then 0
      else
        (let e = max (binary_exponent 1100 \<bar>x\<bar>) (- 1022);
             ulp = pow2 (e - 52)
         in of_int (round_half_even (x / ulp)) * ulp))"

text \<open>
  The method \<open>resize\<close> with every floating-point result rounded by \<open>rnd\<close>. The
  conversions \<open>float(n)\<close> of the integers are exact (every integer up to \<open>2^53\<close> is a
  double), and the test for a zero divisor is the one of \<open>py_truediv\<close>.
\<close>

definition py_truediv_rounded :: "(real \<Rightarrow> real) \<Rightarrow> real \<Rightarrow> real \<Rightarrow> error + real" where
  "py_truediv_rounded rnd a b = (if b = 0 then Inl ZeroDivisionError else Inr (rnd (a / b)))"

definition resize_rounded ::
    "(real \<Rightarrow> real) \<Rightarrow> VirtualCamera \<Rightarrow> int \<Rightarrow> int \<Rightarrow> (error + unit) \<times> VirtualCamera" where
  "resize_rounded rnd self new_width new_height =
     (case py_truediv_rounded rnd (of_int new_width) (of_int (width (intrinsics self))) of
        Inl e \<Rightarrow> (Inl e, self)
      | Inr x_scale \<Rightarrow>
     (case py_truediv_rounded rnd (of_int new_height) (of_int (height (intrinsics self))) of
        Inl e \<Rightarrow> (Inl e, self)
      | Inr y_scale \<Rightarrow>
          (let center_x = rnd (of_int (width (intrinsics self) - 1) / 2);
               center_y = rnd (of_int (height (intrinsics self) - 1) / 2);
               orig_cx_diff = rnd (cx (intrinsics self) - center_x);
               orig_cy_diff = rnd (cy (intrinsics self) - center_y);
               scaled_center_x = rnd (of_int (new_width - 1) / 2);
               scaled_center_y = rnd (of_int (new_height - 1) / 2);
               cx' = rnd (scaled_center_x + rnd (x_scale * orig_cx_diff));
               cy' = rnd (scaled_center_y + rnd (y_scale * orig_cy_diff));
               fx' = rnd (fx (intrinsics self) * x_scale);
               fy' = rnd (fy (intrinsics self) * x_scale);
               scaled_intrinsics =
                 \<lparr>frame = frame (intrinsics self), fx = fx', fy = fy', cx = cx', cy = cy',
                  skew = skew (intrinsics self), height = new_height, width = new_width\<rparr>
           in (Inr (), self\<lparr>intrinsics := scaled_intrinsics\<rparr>))))"

subsection \<open>Notions of the specification\<close>

text \<open>
  The specification's validity of a constructor argument: present, an intrinsics value,
  with positive width and height.
\<close>

definition spec_valid_intrinsics :: "py_object \<Rightarrow> bool" where
  "spec_valid_intrinsics obj =
     (case obj of
        PyCameraIntrinsics i \<Rightarrow> 0 < width i \<and> 0 < height i
      | PyNone \<Rightarrow> False
      | PyOther t \<Rightarrow> False)"



subsection \<open>Concrete cameras\<close>

definition identity4 :: matrix where
  "identity4 = [[1, 0, 0, 0], [0, 1, 0, 0], [0, 0, 1, 0], [0, 0, 0, 1]]"

definition example_intrinsics :: CameraIntrinsics where
  "example_intrinsics =
     \<lparr>frame = ''camera'', fx = 500, fy = 400, cx = 320, cy = 240, skew = 0,
      height = 480, width = 640\<rparr>"

definition example_camera :: VirtualCamera where
  "example_camera =
     \<lparr>intrinsics = example_intrinsics, pose = Some identity4, z_near = 1 / 10, z_far = 10\<rparr>"

definition off_center_intrinsics :: CameraIntrinsics where
  "off_center_intrinsics =
     \<lparr>frame = ''camera'', fx = 500, fy = 400, cx = 330, cy = 250, skew = 0,
      height = 480, width = 640\<rparr>"

definition off_center_camera :: VirtualCamera where
  "off_center_camera =
     \<lparr>intrinsics = off_center_intrinsics, pose = None, z_near = 1 / 10, z_far = 10\<rparr>"

definition zero_width_intrinsics :: CameraIntrinsics where
  "zero_width_intrinsics =
     \<lparr>frame = ''camera'', fx = 500, fy = 400, cx = 320, cy = 240, skew = 0,
      height = 480, width = 0\<rparr>"

definition zero_width_camera :: VirtualCamera where
  "zero_width_camera =
     \<lparr>intrinsics = zero_width_intrinsics, pose = Some identity4, z_near = 1 / 10, z_far = 10\<rparr>"

section \<open>Properties\<close>

subsection \<open>Evaluating the matrix assignments\<close>

lemma zeros_4_4: "zeros 4 4 = [[0, 0, 0, 0], [0, 0, 0, 0], [0, 0, 0, 0], [0, 0, 0, 0]]"
  by (simp add: zeros_def eval_nat_numeral)

lemma set_entry_simps:
  "set_entry [r0, r1, r2, r3] 0 j v = [r0[j := v], r1, r2, r3]"
  "set_entry [r0, r1, r2, r3] (Suc 0) j v = [r0, r1[j := v], r2, r3]"
  "set_entry [r0, r1, r2, r3] 2 j v = [r0, r1, r2[j := v], r3]"
  "set_entry [r0, r1, r2, r3] 3 j v = [r0, r1, r2, r3[j := v]]"
  by (simp_all add: set_entry_def eval_nat_numeral)

lemma row_update_simps:
  "[a, b, c, d][0 := v] = [v, b, c, d]"
  "[a, b, c, d][Suc 0 := v] = [a, v, c, d]"
  "[a, b, c, d][2 := v] = [a, b, v, d]"
  "[a, b, c, d][3 := v] = [a, b, c, v]"
  by (simp_all add: eval_nat_numeral)

subsection \<open>The steps of the view matrix and of resizing\<close>

text \<open>
  The reversal of the Y and Z axes on a 4x4 matrix, the fields of the intrinsics after a
  call of \<open>resize\<close> that returns, the call that raises, and the fields \<open>resize\<close> never
  assigns.
\<close>

lemma reverse_YZ_4x4:
  "reverse_YZ [[a0, a1, a2, a3], [b0, b1, b2, b3], [c0, c1, c2, c3], [d0, d1, d2, d3]] =
     [[a0, - a1, - a2, a3], [b0, - b1, - b2, b3], [c0, - c1, - c2, c3], [d0, d1, d2, d3]]"
  by (simp add: reverse_YZ_def enumerate_eq_zip)

lemma reverse_YZ_identity4:
  "reverse_YZ identity4 = [[1, 0, 0, 0], [0, - 1, 0, 0], [0, 0, - 1, 0], [0, 0, 0, 1]]"
  by (simp add: reverse_YZ_def identity4_def enumerate_eq_zip)

lemma resize_returns:
  assumes "width (intrinsics self) \<noteq> 0" and "height (intrinsics self) \<noteq> 0"
  shows "fst (resize self new_width new_height) = Inr ()"
    and "width (intrinsics (snd (resize self new_width new_height))) = new_width"
    and "height (intrinsics (snd (resize self new_width new_height))) = new_height"
    and "frame (intrinsics (snd (resize self new_width new_height))) = frame (intrinsics self)"
    and "skew (intrinsics (snd (resize self new_width new_height))) = skew (intrinsics self)"
    and "fx (intrinsics (snd (resize self new_width new_height))) =
           fx (intrinsics self) * (of_int new_width / of_int (width (intrinsics self)))"
    and "fy (intrinsics (snd (resize self new_width new_height))) =
           fy (intrinsics self) * (of_int new_width / of_int (width (intrinsics self)))"
    and "cx (intrinsics (snd (resize self new_width new_height))) =
           of_int (new_width - 1) / 2 +
           of_int new_width / of_int (width (intrinsics self)) *
           (cx (intrinsics self) - of_int (width (intrinsics self) - 1) / 2)"
    and "cy (intrinsics (snd (resize self new_width new_height))) =
           of_int (new_height - 1) / 2 +
           of_int new_height / of_int (height (intrinsics self)) *
           (cy (intrinsics self) - of_int (height (intrinsics self) - 1) / 2)"
  using assms by (simp_all add: resize_def py_truediv_def Let_def)

lemma resize_raises:
  assumes "width (intrinsics self) = 0 \<or> height (intrinsics self) = 0"
  shows "resize self new_width new_height = (Inl ZeroDivisionError, self)"
  using assms by (auto simp add: resize_def py_truediv_def)

lemma resize_only_intrinsics:
  "snd (resize self new_width new_height) =
     self\<lparr>intrinsics := intrinsics (snd (resize self new_width new_height))\<rparr>"
  by (simp add: resize_def Let_def split: sum.splits)

subsection \<open>The rounding of doubles\<close>



lemma round_half_even_near: "\<bar>of_int (round_half_even y) - y\<bar> \<le> 1 / 2"
  unfolding round_half_even_def Let_def by (simp; linarith)

lemma pow2_pos: "0 < pow2 e"
  by (simp add: pow2_def)

lemma pow2_powr: "pow2 e = 2 powr of_int e"
  by (simp add: pow2_def powr_real_of_int inverse_eq_divide)

lemma pow2_add: "pow2 (a + b) = pow2 a * pow2 b"
  by (simp add: pow2_powr powr_add)

lemma pow2_diff: "pow2 (a - b) = pow2 a / pow2 b"
  by (simp add: pow2_powr powr_diff)

lemma pow2_numerals: "pow2 0 = 1" "pow2 1 = 2" "pow2 2 = 4"
  by (simp_all add: pow2_def)

lemma pow2_le_1: "pow2 (- int n) \<le> 1"
  by (simp add: pow2_def)

lemma pow2_ge_1: "1 \<le> pow2 (int n)"
  by (simp add: pow2_def)

lemma pow2_ge_2: "2 \<le> pow2 (int (Suc n))"
proof -
  have "pow2 (int (Suc n)) = 2 * pow2 (int n)"
    using pow2_add [of 1 "int n"] by (simp add: pow2_numerals)
  with pow2_ge_1 [of n] show ?thesis by linarith
qed

lemma pow2_less_iff: "pow2 a < pow2 b \<longleftrightarrow> a < b"
  by (simp add: pow2_powr)

lemma pow2_le_iff: "pow2 a \<le> pow2 b \<longleftrightarrow> a \<le> b"
  by (simp add: pow2_powr)

lemma binary_exponent_bounds:
  assumes "pow2 (- int n) \<le> x" and "x < pow2 (int n + 1)"
  shows "pow2 (binary_exponent n x) \<le> x \<and> x < pow2 (binary_exponent n x + 1)"
  using assms
proof (induction n arbitrary: x)
  case 0
  then show ?case by (simp add: pow2_numerals)
next
  case (Suc n)
  have up: "pow2 (int (Suc n) + 1) = 2 * pow2 (int n + 1)"
    using pow2_add [of 1 "int n + 1"] by (simp add: pow2_numerals add.commute)
  have down: "pow2 (- int n) = 2 * pow2 (- int (Suc n))"
    using pow2_add [of 1 "- int (Suc n)"] by (simp add: pow2_numerals)
  show ?case
  proof (cases "2 \<le> x")
    case True
    let ?e = "binary_exponent n (x / 2)"
    have lo: "pow2 (- int n) \<le> x / 2"
      using True pow2_le_1 [of n] by simp
    have hi: "x / 2 < pow2 (int n + 1)"
      using Suc.prems(2) up by simp
    have A: "pow2 (?e + 1) = 2 * pow2 ?e"
      using pow2_add [of ?e 1] by (simp add: pow2_numerals)
    have B: "pow2 (?e + 1 + 1) = 2 * pow2 (?e + 1)"
      using pow2_add [of "?e + 1" 1] by (simp add: pow2_numerals)
    have exp: "binary_exponent (Suc n) x = ?e + 1"
      using True by simp
    from Suc.IH [OF lo hi] have "pow2 ?e \<le> x / 2" and "x / 2 < pow2 (?e + 1)"
      by simp_all
    then have "pow2 (?e + 1) \<le> x" and "x < pow2 (?e + 1 + 1)"
      using A B by linarith+
    then show ?thesis
      unfolding exp by blast
  next
    case False
    show ?thesis
    proof (cases "x < 1")
      case True
      let ?e = "binary_exponent n (x * 2)"
      have lo: "pow2 (- int n) \<le> x * 2"
        using Suc.prems(1) down by simp
      have hi: "x * 2 < pow2 (int n + 1)"
      proof -
        have "2 \<le> pow2 (int n + 1)" using pow2_ge_2 [of n] by (simp add: add.commute)
        moreover have "x * 2 < 2" using True by simp
        ultimately show ?thesis by linarith
      qed
      have A: "pow2 (?e - 1) = pow2 ?e / 2"
        using pow2_diff [of ?e 1] by (simp add: pow2_numerals)
      have B: "pow2 (?e - 1 + 1) = pow2 ?e"
        by simp
      have C: "pow2 (?e + 1) = 2 * pow2 ?e"
        using pow2_add [of ?e 1] by (simp add: pow2_numerals)
      have exp: "binary_exponent (Suc n) x = ?e - 1"
        using True False by simp
      from Suc.IH [OF lo hi] have "pow2 ?e \<le> x * 2" and "x * 2 < pow2 (?e + 1)"
        by simp_all
      then have "pow2 (?e - 1) \<le> x" and "x < pow2 (?e - 1 + 1)"
        using A B C by linarith+
      then show ?thesis
        unfolding exp by blast
    next
      case False
      with \<open>\<not> 2 \<le> x\<close> show ?thesis by (simp add: pow2_def)
    qed
  qed
qed

lemma double_round_nearest:
  assumes "pow2 (- 1022) \<le> \<bar>x\<bar>" and "\<bar>x\<bar> < pow2 1024"
  shows "\<exists>m e. double_round x = of_int m * pow2 (e - 52) \<and>
               pow2 e \<le> \<bar>x\<bar> \<and> \<bar>x\<bar> < pow2 (e + 1) \<and>
               \<bar>double_round x - x\<bar> \<le> pow2 (e - 52) / 2"
proof -
  let ?e = "binary_exponent 1100 \<bar>x\<bar>"
  let ?ulp = "pow2 (?e - 52)"
  let ?m = "round_half_even (x / ?ulp)"
  have "pow2 (- int 1100) \<le> pow2 (- 1022)" and "pow2 1024 \<le> pow2 (int 1100 + 1)"
    by (simp_all only: pow2_le_iff)
  with assms have "pow2 (- int 1100) \<le> \<bar>x\<bar>" and "\<bar>x\<bar> < pow2 (int 1100 + 1)"
    by linarith+
  then have bounds: "pow2 ?e \<le> \<bar>x\<bar> \<and> \<bar>x\<bar> < pow2 (?e + 1)"
    by (rule binary_exponent_bounds)
  with assms(1) have "pow2 (- 1022) < pow2 (?e + 1)"
    by linarith
  then have normal: "- 1022 \<le> ?e"
    by (simp only: pow2_less_iff)
  have "x \<noteq> 0"
    using assms(1) pow2_pos [of "- 1022"] by auto
  with normal have rounded: "double_round x = of_int ?m * ?ulp"
    by (simp add: double_round_def Let_def max_def)
  have "\<bar>of_int ?m - x / ?ulp\<bar> \<le> 1 / 2"
    by (rule round_half_even_near)
  then have "\<bar>of_int ?m - x / ?ulp\<bar> * ?ulp \<le> 1 / 2 * ?ulp"
    using pow2_pos [of "?e - 52"] by (intro mult_right_mono) simp_all
  moreover have "\<bar>of_int ?m - x / ?ulp\<bar> * ?ulp = \<bar>of_int ?m * ?ulp - x\<bar>"
  proof -
    have "\<bar>of_int ?m - x / ?ulp\<bar> * ?ulp = \<bar>(of_int ?m - x / ?ulp) * ?ulp\<bar>"
      using pow2_pos [of "?e - 52"] by (simp add: abs_mult)
    also have "(of_int ?m - x / ?ulp) * ?ulp = of_int ?m * ?ulp - x"
      using pow2_pos [of "?e - 52"] by (simp add: field_simps)
    finally show ?thesis .
  qed
  ultimately have "\<bar>double_round x - x\<bar> \<le> ?ulp / 2"
    by (simp add: rounded)
  with rounded bounds show ?thesis
    by blast
qed


subsection \<open>Resizing with and without rounding\<close>

lemma resize_rounded_exact:
  "resize_rounded (\<lambda>x. x) self new_width new_height = resize self new_width new_height"
  by (simp add: resize_rounded_def resize_def py_truediv_rounded_def py_truediv_def)



subsection \<open>The projection matrix\<close>

text \<open>
  C1 (amended). For every camera whose intrinsics have a nonzero width and a nonzero
  height and whose \<open>z_far\<close> differs from \<open>z_near\<close>, reading \<open>P\<close> returns the 4x4 matrix
  with \<open>P[0][0] = 2*fx/width\<close>, \<open>P[1][1] = 2*fy/height\<close>, \<open>P[0][2] = 1 - 2*cx/width\<close>,
  \<open>P[1][2] = 2*cy/height - 1\<close>, \<open>P[2][2] = -(z_far + z_near)/(z_far - z_near)\<close>,
  \<open>P[3][2] = -1\<close>, \<open>P[2][3] = -2*z_far*z_near/(z_far - z_near)\<close> and every other entry
  zero; the skew does not occur in it.
\<close>

theorem P_value:
  assumes "width (intrinsics self) \<noteq> 0" and "height (intrinsics self) \<noteq> 0"
    and "z_far self \<noteq> z_near self"
  shows "P self = Inr
    [[2 * fx (intrinsics self) / of_int (width (intrinsics self)), 0,
        1 - 2 * cx (intrinsics self) / of_int (width (intrinsics self)), 0],
     [0, 2 * fy (intrinsics self) / of_int (height (intrinsics self)),
        2 * cy (intrinsics self) / of_int (height (intrinsics self)) - 1, 0],
     [0, 0, - (z_far self + z_near self) / (z_far self - z_near self),
        - 2 * z_far self * z_near self / (z_far self - z_near self)],
     [0, 0, - 1, 0]]"
  using assms
  by (simp add: P_def Let_def bind_result_def py_truediv_def zeros_4_4
      set_entry_simps row_update_simps)

text \<open>The theorem at the example camera (640x480, clip distances 0.1 and 10).\<close>

theorem P_value_witness:
  "width (intrinsics example_camera) \<noteq> 0 \<and> height (intrinsics example_camera) \<noteq> 0 \<and>
   z_far example_camera \<noteq> z_near example_camera \<and>
   P example_camera = Inr
     [[25 / 16, 0, 0, 0],
      [0, 5 / 3, 0, 0],
      [0, 0, - (101 / 99), - (20 / 99)],
      [0, 0, - 1, 0]]"
  using P_value [of example_camera]
  by (simp add: example_camera_def example_intrinsics_def)

text \<open>
  Without the condition on the width the claim fails: a camera whose intrinsics have
  width 0 has \<open>z_far \<noteq> z_near\<close>, and line 62 divides by the width.
\<close>

theorem P_zero_width_counterexample:
  "z_far zero_width_camera \<noteq> z_near zero_width_camera \<and>
   P zero_width_camera = Inl ZeroDivisionError"
  by (simp add: P_def Let_def bind_result_def py_truediv_def zero_width_camera_def
      zero_width_intrinsics_def)

subsection \<open>Resizing\<close>

text \<open>
  C2. For every call \<open>resize(new_width, new_height)\<close> on a camera whose intrinsics have
  positive width and height, the call returns normally and replaces the intrinsics by a
  value with the new width and height,
  \<open>cx = (new_width-1)/2 + (new_width/width)*(cx_old - (width-1)/2)\<close>,
  \<open>cy = (new_height-1)/2 + (new_height/height)*(cy_old - (height-1)/2)\<close>,
  \<open>fx = fx_old * (new_width/width)\<close>, \<open>fy = fy_old * (new_width/width)\<close>, and the frame
  label and skew of the old intrinsics.
\<close>

theorem resize_intrinsics:
  assumes "0 < width (intrinsics self)" and "0 < height (intrinsics self)"
  shows "resize self new_width new_height =
    (Inr (),
     self\<lparr>intrinsics :=
       \<lparr>frame = frame (intrinsics self),
        fx = fx (intrinsics self) * (of_int new_width / of_int (width (intrinsics self))),
        fy = fy (intrinsics self) * (of_int new_width / of_int (width (intrinsics self))),
        cx = (of_int new_width - 1) / 2 +
             (of_int new_width / of_int (width (intrinsics self))) *
             (cx (intrinsics self) - (of_int (width (intrinsics self)) - 1) / 2),
        cy = (of_int new_height - 1) / 2 +
             (of_int new_height / of_int (height (intrinsics self))) *
             (cy (intrinsics self) - (of_int (height (intrinsics self)) - 1) / 2),
        skew = skew (intrinsics self),
        height = new_height,
        width = new_width\<rparr>\<rparr>)"
    (is "_ = (_, self\<lparr>intrinsics := ?scaled\<rparr>)")
proof -
  let ?after = "snd (resize self new_width new_height)"
  from assms have old: "width (intrinsics self) \<noteq> 0" "height (intrinsics self) \<noteq> 0"
    by simp_all
  note new = resize_returns [OF old, of new_width new_height]
  have "intrinsics ?after = ?scaled"
    by (rule CameraIntrinsics.equality) (simp_all add: new)
  then have "?after = self\<lparr>intrinsics := ?scaled\<rparr>"
    using resize_only_intrinsics [of self new_width new_height] by simp
  with new(1) show ?thesis
    by (simp add: prod_eq_iff)
qed

text \<open>The theorem at the example camera, resized from 640x480 to 320x120.\<close>

theorem resize_intrinsics_witness:
  "0 < width (intrinsics example_camera) \<and> 0 < height (intrinsics example_camera) \<and>
   resize example_camera 320 120 =
     (Inr (),
      example_camera\<lparr>intrinsics :=
        \<lparr>frame = ''camera'', fx = 250, fy = 200, cx = 639 / 4, cy = 477 / 8, skew = 0,
         height = 120, width = 320\<rparr>\<rparr>)"
  using resize_intrinsics [of example_camera 320 120]
  by (simp add: example_camera_def example_intrinsics_def)

subsection \<open>The view matrix of a camera with a pose\<close>

text \<open>
  C3. The claim is that \<open>V\<close> returns the inverse of the pose with its Y and Z columns
  reversed. The source computes the reversed matrix in \<open>V_inv\<close> and then passes the
  unbound name \<open>V_inv_GL\<close> to the inversion: for every camera whose pose is set, and
  whatever the inversion does, reading \<open>V\<close> raises \<open>NameError\<close> and returns no matrix.
\<close>

theorem V_raises_NameError:
  assumes "pose self = Some M"
  shows "V linalg_inv self = Inl NameError"
  using assms by (simp add: V_def Let_def lookup_name_def bind_result_def)

text \<open>The theorem at the example camera, whose pose is the identity.\<close>

theorem V_raises_NameError_witness:
  "pose example_camera = Some identity4 \<and> V (\<lambda>A. Inr A) example_camera = Inl NameError"
  using V_raises_NameError [of example_camera identity4 "\<lambda>A. Inr A"]
  by (simp add: example_camera_def)

subsection \<open>The worked example of resizing\<close>

text \<open>
  C4 (amended). Resizing a camera whose intrinsics are width 640, height 480, cx 320,
  cy 240 to 1280x960 yields intrinsics with \<open>cx = 640.5\<close>, \<open>cy = 480.5\<close>,
  \<open>fx = 2*fx_old\<close> and \<open>fy = 2*fy_old\<close>: the geometric centre of a window of width \<open>w\<close> is
  \<open>(w-1)/2\<close>, so the point (320, 240) lies half a pixel off the centre of the old window,
  and \<open>fy\<close> is the old \<open>fy\<close> times the horizontal factor.
\<close>

theorem resize_640_480_to_1280_960:
  assumes "width (intrinsics self) = 640" and "height (intrinsics self) = 480"
    and "cx (intrinsics self) = 320" and "cy (intrinsics self) = 240"
  shows "resize self 1280 960 =
    (Inr (),
     self\<lparr>intrinsics :=
       \<lparr>frame = frame (intrinsics self),
        fx = 2 * fx (intrinsics self),
        fy = 2 * fy (intrinsics self),
        cx = 640.5,
        cy = 480.5,
        skew = skew (intrinsics self),
        height = 960,
        width = 1280\<rparr>\<rparr>)"
  using assms by (simp add: resize_def py_truediv_def Let_def)

text \<open>The theorem at the example camera, with \<open>fx = 500\<close> and \<open>fy = 400\<close>.\<close>

theorem resize_640_480_to_1280_960_witness:
  "width (intrinsics example_camera) = 640 \<and> height (intrinsics example_camera) = 480 \<and>
   cx (intrinsics example_camera) = 320 \<and> cy (intrinsics example_camera) = 240 \<and>
   resize example_camera 1280 960 =
     (Inr (),
      example_camera\<lparr>intrinsics :=
        \<lparr>frame = ''camera'', fx = 1000, fy = 800, cx = 1281 / 2, cy = 961 / 2, skew = 0,
         height = 960, width = 1280\<rparr>\<rparr>)"
  using resize_640_480_to_1280_960 [of example_camera]
  by (simp add: example_camera_def example_intrinsics_def)

text \<open>
  The values of the claim as it was stated (\<open>cx = 640\<close>, \<open>cy = 480\<close>, \<open>fy = 2*fx_old\<close>)
  are not those of the code at the example camera.
\<close>

theorem resize_640_480_to_1280_960_counterexample:
  "width (intrinsics example_camera) = 640 \<and> height (intrinsics example_camera) = 480 \<and>
   cx (intrinsics example_camera) = 320 \<and> cy (intrinsics example_camera) = 240 \<and>
   cx (intrinsics (snd (resize example_camera 1280 960))) \<noteq> 640 \<and>
   cy (intrinsics (snd (resize example_camera 1280 960))) \<noteq> 480 \<and>
   fy (intrinsics (snd (resize example_camera 1280 960))) \<noteq>
     2 * fx (intrinsics example_camera)"
  by (simp add: resize_def py_truediv_def Let_def example_camera_def example_intrinsics_def)

subsection \<open>Resizing twice\<close>




subsection \<open>The constructor\<close>

text \<open>
  C6 (amended). The constructor raises \<open>ValueError\<close> if and only if the argument
  \<open>intrinsics\<close> is not an instance of \<open>CameraIntrinsics\<close> (it is \<open>None\<close> or an object of
  another type). It tests neither the width and height of the intrinsics nor \<open>z_near\<close>
  and \<open>z_far\<close>, and on success the new camera holds the given intrinsics, pose, \<open>z_near\<close>
  and \<open>z_far\<close> unchanged and nothing else.
\<close>

theorem VirtualCamera_init_result:
  "VirtualCamera_init (PyCameraIntrinsics i) pose_arg z_near_arg z_far_arg =
     Inr \<lparr>intrinsics = i, pose = pose_arg, z_near = z_near_arg, z_far = z_far_arg\<rparr> \<and>
   VirtualCamera_init PyNone pose_arg z_near_arg z_far_arg = Inl ValueError \<and>
   VirtualCamera_init (PyOther t) pose_arg z_near_arg z_far_arg = Inl ValueError \<and>
   (VirtualCamera_init obj pose_arg z_near_arg z_far_arg = Inl ValueError) =
     (\<not> isinstance_CameraIntrinsics obj) \<and>
   isl (VirtualCamera_init obj pose_arg z_near_arg z_far_arg) =
     (\<not> isinstance_CameraIntrinsics obj)"
  by (cases obj) (simp_all add: VirtualCamera_init_def)

text \<open>
  Intrinsics of width 0 are not valid in the sense of the specification, and the
  constructor accepts them (here with \<open>z_near\<close> above \<open>z_far\<close>).
\<close>

theorem VirtualCamera_init_counterexample:
  "\<not> spec_valid_intrinsics (PyCameraIntrinsics zero_width_intrinsics) \<and>
   VirtualCamera_init (PyCameraIntrinsics zero_width_intrinsics) None 10 1 =
     Inr \<lparr>intrinsics = zero_width_intrinsics, pose = None, z_near = 10, z_far = 1\<rparr>"
  by (simp add: spec_valid_intrinsics_def VirtualCamera_init_def zero_width_intrinsics_def)

subsection \<open>The view matrix of a camera without a pose\<close>

text \<open>
  C7. For every camera whose pose is unset, reading \<open>V\<close> fails and returns no matrix:
  line 49 raises \<open>AttributeError\<close>, since \<open>None\<close> has no method \<open>copy\<close>.
\<close>

theorem V_unset_pose:
  assumes "pose self = None"
  shows "V linalg_inv self = Inl AttributeError"
  using assms by (simp add: V_def)

text \<open>The theorem at a camera constructed without a pose.\<close>

theorem V_unset_pose_witness:
  "pose off_center_camera = None \<and> V (\<lambda>A. Inr A) off_center_camera = Inl AttributeError"
  using V_unset_pose [of off_center_camera "\<lambda>A. Inr A"]
  by (simp add: off_center_camera_def)

subsection \<open>The projection matrix does not read the pose\<close>

text \<open>
  C8. Two cameras with the same intrinsics, \<open>z_near\<close> and \<open>z_far\<close> and any two poses, set
  or unset, have the same \<open>P\<close> (the same matrix, or the same exception), and assigning a
  new pose to a camera does not change its \<open>P\<close>.
\<close>

theorem P_independent_of_pose:
  "P \<lparr>intrinsics = i, pose = p1, z_near = zn, z_far = zf\<rparr> =
     P \<lparr>intrinsics = i, pose = p2, z_near = zn, z_far = zf\<rparr> \<and>
   P (self\<lparr>pose := p\<rparr>) = P self"
  by (simp add: P_def)

subsection \<open>What resizing leaves alone\<close>

text \<open>
  C9. For every call of \<open>resize\<close>, whether it returns or raises, the pose, \<open>z_near\<close> and
  \<open>z_far\<close> of the camera after the call are those before it: the camera after the call
  is the camera before it with at most the field \<open>intrinsics\<close> replaced.
\<close>

theorem resize_frame:
  "pose (snd (resize self new_width new_height)) = pose self \<and>
   z_near (snd (resize self new_width new_height)) = z_near self \<and>
   z_far (snd (resize self new_width new_height)) = z_far self \<and>
   snd (resize self new_width new_height) =
     self\<lparr>intrinsics := intrinsics (snd (resize self new_width new_height))\<rparr>"
proof (cases "width (intrinsics self) = 0 \<or> height (intrinsics self) = 0")
  case True
  then have "resize self new_width new_height = (Inl ZeroDivisionError, self)"
    by (rule resize_raises)
  then show ?thesis by simp
next
  case False
  let ?after = "snd (resize self new_width new_height)"
  have only: "?after = self\<lparr>intrinsics := intrinsics ?after\<rparr>"
    by (rule resize_only_intrinsics)
  have "pose ?after = pose self"
    by (subst only) simp
  moreover have "z_near ?after = z_near self"
    by (subst only) simp
  moreover have "z_far ?after = z_far self"
    by (subst only) simp
  ultimately show ?thesis
    using only by blast
qed

subsection \<open>The offset of the principal point\<close>




end
